theory Spec2Isabelle
  imports Main "HOL-Library.FSet" "HOL-Library.Finite_Map"
begin

section \<open>The types the library computes with\<close>

text \<open>
  The repository (\<^verbatim>\<open>union.ts\<close>, \<^verbatim>\<open>basic.ts\<close>, \<^verbatim>\<open>object.ts\<close>) is a library of TypeScript
  type aliases: every operation is a function from types to types, evaluated by the
  type checker. The embedding therefore has two layers. This section and the next three
  fix the fragment of TypeScript types the operations are evaluated on and the checker's
  own operators (\<^verbatim>\<open>|\<close>, \<^verbatim>\<open>&\<close>, \<^verbatim>\<open>extends\<close>, \<^verbatim>\<open>keyof\<close>, \<^verbatim>\<open>Pick\<close>, \<^verbatim>\<open>Exclude\<close>,
  \<^verbatim>\<open>Extract\<close>, \<^verbatim>\<open>NonNullable\<close>) under \<^verbatim>\<open>strictNullChecks\<close>; the sections after them
  translate the aliases of the three source files one by one.

  A type of the fragment is \<^verbatim>\<open>never\<close>, one of the six primitives of \<^verbatim>\<open>basic.ts\<close>, a
  string literal type, a function type, an array type (mutable or readonly), an object
  type given by its properties, an intersection that cannot be written as one of these,
  or a union. Types are taken up to their structure: a union is the finite set of its
  constituents, an object type is the finite map from its property keys to its
  properties, and an interface that extends \<^verbatim>\<open>Array<X>\<close> or \<^verbatim>\<open>ReadonlyArray<X>\<close> and adds
  nothing is the array type. \<^verbatim>\<open>boolean\<close> is one primitive (the fragment has no \<^verbatim>\<open>true\<close>
  and \<^verbatim>\<open>false\<close> literal types), and a function type is known by a tag only: nothing in
  the library looks inside one.
\<close>

datatype prim = PNull | PUndefined | PString | PNumber | PBoolean | PSymbol

text \<open>A property key: a name, or one of the three index signatures.\<close>

datatype key = KName string | KString | KNumber | KSymbol

text \<open>
  A property carries its type as the checker reads it (\<^verbatim>\<open>T[P]\<close>, which for an optional
  property declared \<^verbatim>\<open>a?: X\<close> is \<^verbatim>\<open>X | undefined\<close>), and its two modifiers.
\<close>

datatype ty =
    TNever
  | TPrim prim
  | TLit string
  | TFun nat
  | TArray bool ty
  | TObject "(key, fld) fmap"
  | TInter ty ty
  | TUnion "ty fset"
and fld = Fld (shape: ty) (optional: bool) (readonly: bool)

type_synonym fields = "(key, fld) fmap"

text \<open>
  The declarations of the standard library (\<^verbatim>\<open>lib.d.ts\<close>: the members of \<^verbatim>\<open>String\<close>,
  \<^verbatim>\<open>Number\<close>, \<^verbatim>\<open>Array<T>\<close>, \<^verbatim>\<open>Function\<close>, ...) are not part of the repository. They
  are a parameter: \<open>lib t\<close> is the table of members the library declares for the
  primitive, array or function type \<open>t\<close>.
\<close>

type_synonym lib = "ty \<Rightarrow> fields"

text \<open>
  The two rejections of the library are failed type-parameter constraints:
  \<^verbatim>\<open>KeyType extends keyof ObjectType\<close> (and \<^verbatim>\<open>UnionType2 extends UnionType1\<close> of
  \<^verbatim>\<open>Complement\<close>) names a key that is not there, \<^verbatim>\<open>T extends object\<close> is given
  something that is not an object.
\<close>

datatype error = UnknownKeyError | StructuralPreconditionError

section \<open>Unions\<close>

lemma size_fset_member [termination_simp]:
  "z |\<in>| ts \<Longrightarrow> size (z::ty) < Suc (\<Sum>x\<in>fset ts. Suc (size x))"
proof -
  assume "z |\<in>| ts"
  then have "Suc (size z) \<le> (\<Sum>x\<in>fset ts. Suc (size x))"
    by (intro member_le_sum) auto
  then show ?thesis by simp
qed

lemma size_fmlookup:
  assumes "fmlookup fs k = Some f"
  shows "size (shape f) < size (TObject fs)"
proof -
  from assms have "(k, f) \<in> fset (fset_of_fmap fs)" by auto
  then have "Suc (case (k, f) of (a, x) \<Rightarrow> size x)
      \<le> (\<Sum>x\<in>fset (fset_of_fmap fs). Suc (case x of (a, x) \<Rightarrow> size x))"
    by (intro member_le_sum) auto
  moreover have "size (shape f) < size f" by (cases f) simp
  ultimately show ?thesis by simp
qed

lemma size_fmran_member [termination_simp]:
  "z \<in> fmran' (fs :: fields) \<Longrightarrow>
   size (shape z) < Suc (\<Sum>x\<in>fset (fset_of_fmap fs). Suc (case x of (a, x) \<Rightarrow> size x))"
proof -
  assume "z \<in> fmran' fs"
  then obtain k where "fmlookup fs k = Some z" by (auto simp: fmran'_def)
  from size_fmlookup [OF this] show ?thesis by simp
qed

lemma size_fmran_fmember [termination_simp]:
  "z |\<in>| fmran (fs :: fields) \<Longrightarrow>
   size (shape z) < Suc (\<Sum>x\<in>fset (fset_of_fmap fs). Suc (case x of (a, x) \<Rightarrow> size x))"
  using size_fmran_member [of z fs] by (simp add: fmran'_alt_def)

text \<open>The constituents of a type: \<^verbatim>\<open>never\<close> is the empty union, unions are flat.\<close>

fun members :: "ty \<Rightarrow> ty fset" where
  "members TNever = {||}"
| "members (TUnion ts) = ffUnion (members |`| ts)"
| "members t = {|t|}"

fun is_lit :: "ty \<Rightarrow> bool" where
  "is_lit (TLit s) = True"
| "is_lit t = False"

text \<open>
  The union of a set of types, as the checker builds it: flattened, the empty union
  \<^verbatim>\<open>never\<close>, a union of one type that type. The checker also drops a string literal
  from a union that has \<^verbatim>\<open>string\<close>; \<open>reduce_literals\<close> does that, and \<open>keyof\<close> below
  applies it, where it decides which properties a mapped type lists. Elsewhere the
  literal is kept beside \<^verbatim>\<open>string\<close>, which changes no value of the union.
\<close>

definition of_members :: "ty fset \<Rightarrow> ty" where
  "of_members ms =
     (if ms = {||} then TNever
      else if fcard ms = 1 then fthe_elem ms
      else TUnion ms)"

definition mk_union :: "ty fset \<Rightarrow> ty" where
  "mk_union ts = of_members (ffUnion (members |`| ts))"

definition reduce_literals :: "ty fset \<Rightarrow> ty fset" where
  "reduce_literals ms =
     (if TPrim PString |\<in>| ms then ffilter (\<lambda>m. \<not> is_lit m) ms else ms)"

text \<open>
  An optional property is read with \<^verbatim>\<open>undefined\<close> added; the modifier \<^verbatim>\<open>-?\<close> on an
  optional property takes \<^verbatim>\<open>undefined\<close> out again.
\<close>

definition add_undefined :: "ty \<Rightarrow> ty" where
  "add_undefined t = mk_union {|t, TPrim PUndefined|}"

definition strip_undefined :: "ty \<Rightarrow> ty" where
  "strip_undefined t = mk_union (ffilter (\<lambda>m. m \<noteq> TPrim PUndefined) (members t))"

lemma mem_ffUnion:
  "x |\<in>| ffUnion A \<longleftrightarrow> (\<exists>a. a |\<in>| A \<and> x |\<in>| a)"
  by (auto simp: ffUnion.rep_eq)

lemma size_members:
  "m |\<in>| members t \<Longrightarrow> size m \<le> size t"
proof (induction t arbitrary: m rule: members.induct)
  case (2 ts)
  then obtain t where t: "t |\<in>| ts" "m |\<in>| members t"
    by (auto simp: mem_ffUnion)
  with 2 have "size m \<le> size t" by blast
  moreover from t have "size t < size (TUnion ts)"
    using size_fset_member [of t ts] by simp
  ultimately show ?case by simp
qed auto

lemma members_atom: "m |\<in>| members t \<Longrightarrow> members m = {|m|}"
  by (induction t rule: members.induct) (auto simp: mem_ffUnion)



lemma fcard_1E: "fcard S = 1 \<Longrightarrow> \<exists>m. S = {|m|}"
proof -
  assume "fcard S = 1"
  then have "card (fset S) = 1" by (simp only: fcard.rep_eq)
  then obtain m where "fset S = {m}" by (rule card_1_singletonE)
  then have "S = {|m|}" by (metis bot_fset.rep_eq finsert.rep_eq fset_inverse)
  then show ?thesis ..
qed

lemma fcard_single [simp]: "fcard {|m|} = 1"
  by (simp add: fcard_finsert_if)

lemma of_members_single [simp]: "of_members {|m|} = m"
  by (simp add: of_members_def)

lemma members_flat:
  assumes "\<And>m. m |\<in>| S \<Longrightarrow> members m = {|m|}"
  shows "ffUnion (members |`| S) = S"
  using assms by (induction S) auto



section \<open>Intersections\<close>

lemma fmmap_keys_cong [fundef_cong]:
  "m = n \<Longrightarrow> (\<And>k v. fmlookup n k = Some v \<Longrightarrow> f k v = g k v)
     \<Longrightarrow> fmmap_keys f m = fmmap_keys g n"
  by (rule fmap_ext) (auto simp: map_option_case split: option.splits)

fun is_object :: "ty \<Rightarrow> bool" where
  "is_object (TFun i) = True"
| "is_object (TArray ro e) = True"
| "is_object (TObject fs) = True"
| "is_object (TInter a b) = (is_object a \<or> is_object b)"
| "is_object t = False"

text \<open>
  \<open>inter_ty a b\<close> is \<^verbatim>\<open>a & b\<close>. The intersection of a type with itself is that type.
  Otherwise it distributes over the unions of its operands. Of two constituents: equal
  ones give that type; \<^verbatim>\<open>{}\<close> disappears beside an
  object type; two primitives, or a primitive other than \<^verbatim>\<open>string\<close> and a literal, or
  \<^verbatim>\<open>null\<close> or \<^verbatim>\<open>undefined\<close> and an object type, have no common value; two object
  types given by their properties give the object type with the properties of both,
  where a property of both is optional or readonly when it is so in both and has the
  intersection of the two types. Every other intersection stays as it is written.
\<close>

function inter_ty :: "ty \<Rightarrow> ty \<Rightarrow> ty"
  and inter_atom :: "ty \<Rightarrow> ty \<Rightarrow> ty"
  and inter_fields :: "fields \<Rightarrow> fields \<Rightarrow> fields"
where
  "inter_ty a b =
     (if a = b then a
      else mk_union (ffUnion ((\<lambda>x. (\<lambda>y. inter_atom x y) |`| members b) |`| members a)))"
| "inter_atom x y =
     (if x = y then x
      else case (x, y) of
        (TObject fs, TObject gs) \<Rightarrow>
          if fs = fmempty then y else if gs = fmempty then x
          else TObject (inter_fields fs gs)
      | (TObject fs, _) \<Rightarrow>
          if y = TPrim PNull \<or> y = TPrim PUndefined then TNever
          else if fs = fmempty \<and> is_object y then y else TInter x y
      | (_, TObject gs) \<Rightarrow>
          if x = TPrim PNull \<or> x = TPrim PUndefined then TNever
          else if gs = fmempty \<and> is_object x then x else TInter x y
      | (TPrim p, TPrim q) \<Rightarrow> TNever
      | (TPrim p, TLit s) \<Rightarrow> if p = PString then y else TNever
      | (TLit s, TPrim q) \<Rightarrow> if q = PString then x else TNever
      | (TLit s, TLit s') \<Rightarrow> TNever
      | (TPrim p, _) \<Rightarrow> if p = PNull \<or> p = PUndefined then TNever else TInter x y
      | (_, TPrim q) \<Rightarrow> if q = PNull \<or> q = PUndefined then TNever else TInter x y
      | _ \<Rightarrow> TInter x y)"
| "inter_fields fs gs =
     fmadd
       (fmmap_keys
          (\<lambda>k f. case fmlookup gs k of
                   None \<Rightarrow> f
                 | Some g \<Rightarrow> Fld (inter_ty (shape f) (shape g))
                               (optional f \<and> optional g) (readonly f \<and> readonly g))
          fs)
       (fmfilter (\<lambda>k. k |\<notin>| fmdom fs) gs)"
  by pat_completeness auto
termination
proof (relation "measure (\<lambda>v. case v of
          Inl (a, b) \<Rightarrow> 3 * (size a + size b) + 2
        | Inr (Inl (x, y)) \<Rightarrow> 3 * (size x + size y) + 1
        | Inr (Inr (fs, gs)) \<Rightarrow> 3 * (size (TObject fs) + size (TObject gs)))",
    goal_cases)
  case 1
  show ?case by simp
next
  case (2 a b x y)
  then show ?case
    using size_members [of x a] size_members [of y b] by simp
next
  case (3 x y fs t gs)
  then show ?case by auto
next
  case (4 fs gs k f g)
  then show ?case
    using size_fmlookup [of fs k f] size_fmlookup [of gs k g] by simp
qed

declare inter_ty.simps [simp del] inter_atom.simps [simp del] inter_fields.simps [simp del]

section \<open>Properties and assignability\<close>

text \<open>
  The properties of a type that is not a union: those of an object type are the type;
  an array has its number index signature and the members the library declares for it;
  an intersection has the properties of both operands; a primitive has those of its
  wrapper interface, \<^verbatim>\<open>null\<close> and \<^verbatim>\<open>undefined\<close> have none. \<open>props\<close> are the
  properties \<^verbatim>\<open>keyof\<close> and mapped types see, where a function type has none;
  \<open>apparent\<close> are those a property access and assignability see, where a function
  type has the members of \<^verbatim>\<open>Function\<close>.
\<close>

fun props :: "lib \<Rightarrow> ty \<Rightarrow> fields" where
  "props lb (TObject fs) = fs"
| "props lb (TArray ro e) = fmupd KNumber (Fld e False ro) (lb (TArray ro e))"
| "props lb (TInter a b) = inter_fields (props lb a) (props lb b)"
| "props lb (TLit s) = lb (TPrim PString)"
| "props lb (TPrim p) = (if p = PNull \<or> p = PUndefined then fmempty else lb (TPrim p))"
| "props lb t = fmempty"

fun apparent :: "lib \<Rightarrow> ty \<Rightarrow> fields" where
  "apparent lb (TFun i) = lb (TFun i)"
| "apparent lb (TInter a b) = inter_fields (apparent lb a) (apparent lb b)"
| "apparent lb t = props lb t"

text \<open>
  The property a key selects: the property of that name, or else the string index
  signature, which covers every name and every number.
\<close>

definition lookup_prop :: "fields \<Rightarrow> key \<Rightarrow> fld option" where
  "lookup_prop ps k =
     (case fmlookup ps k of
        Some f \<Rightarrow> Some f
      | None \<Rightarrow> (case k of
                   KName s \<Rightarrow> fmlookup ps KString
                 | KNumber \<Rightarrow> fmlookup ps KString
                 | _ \<Rightarrow> None))"

text \<open>The keys an index signature of a target constrains.\<close>

fun covers :: "key \<Rightarrow> key \<Rightarrow> bool" where
  "covers KString (KName s) = True"
| "covers KString KString = True"
| "covers KString KNumber = True"
| "covers KNumber KNumber = True"
| "covers KSymbol KSymbol = True"
| "covers k k' = False"

text \<open>
  \<open>sub lb s t\<close> is \<^verbatim>\<open>s extends t\<close> where nothing distributes: \<open>s\<close> is assignable to
  \<open>t\<close>. A type is assignable to itself. Otherwise (\<open>sub_rules\<close>): a union source needs
  every constituent assignable, \<^verbatim>\<open>never\<close> is assignable to everything; a union target
  needs one constituent that takes the source, an intersection target both operands. An
  object type as target (\<open>sub_fields\<close>) takes a source that is not \<^verbatim>\<open>null\<close> or
  \<^verbatim>\<open>undefined\<close> and has each of its named properties with an assignable type (a
  missing one must be optional in the target, an optional one must not be required by
  the target, and an optional target property admits \<^verbatim>\<open>undefined\<close>), and whose
  properties under an index signature of the target all have a type assignable to the
  signature's. Otherwise an intersection source is assignable when one operand is, and
  for the rest: a literal to \<^verbatim>\<open>string\<close>, an array to an array of a type its element
  type is assignable to (a readonly array to a readonly array only). Two function types
  or two primitives are assignable only when they are the same.
\<close>

function (sequential) sub :: "lib \<Rightarrow> ty \<Rightarrow> ty \<Rightarrow> bool"
  and sub_rules :: "lib \<Rightarrow> ty \<Rightarrow> ty \<Rightarrow> bool"
  and sub_fields :: "lib \<Rightarrow> ty \<Rightarrow> fields \<Rightarrow> bool"
where
  "sub lb s t = (s = t \<or> sub_rules lb s t)"
| "sub_rules lb TNever t = True"
| "sub_rules lb (TUnion ss) t = fBall ss (\<lambda>s. sub lb s t)"
| "sub_rules lb s (TUnion ts) = fBex ts (\<lambda>t. sub lb s t)"
| "sub_rules lb s TNever = False"
| "sub_rules lb s (TInter a b) = (sub lb s a \<and> sub lb s b)"
| "sub_rules lb (TPrim p) (TObject gs) =
     (p \<noteq> PNull \<and> p \<noteq> PUndefined \<and> sub_fields lb (TPrim p) gs)"
| "sub_rules lb s (TObject gs) = sub_fields lb s gs"
| "sub_rules lb (TInter a b) t = (sub lb a t \<or> sub lb b t)"
| "sub_rules lb (TLit s) (TPrim q) = (q = PString)"
| "sub_rules lb (TArray ro e) (TArray ro' e') = ((ro \<longrightarrow> ro') \<and> sub lb e e')"
| "sub_rules lb s t = False"
| "sub_fields lb s gs =
     fBall (fmdom gs) (\<lambda>k.
       case fmlookup gs k of
         None \<Rightarrow> True
       | Some g \<Rightarrow>
           (case k of
              KName n \<Rightarrow>
                (case lookup_prop (apparent lb s) k of
                   None \<Rightarrow> optional g
                 | Some f \<Rightarrow>
                     (optional f \<longrightarrow> optional g) \<and>
                     fBall (members (shape f)) (\<lambda>m.
                       (optional g \<and> m = TPrim PUndefined) \<or> sub lb m (shape g)))
            | _ \<Rightarrow>
                fBall (fmdom (apparent lb s)) (\<lambda>k'.
                  case fmlookup (apparent lb s) k' of
                    None \<Rightarrow> True
                  | Some f \<Rightarrow> covers k k' \<longrightarrow> sub lb (shape f) (shape g))))"
  by pat_completeness auto
termination
  by (relation "inv_image (less_than <*lex*> less_than)
        (\<lambda>v. case v of
                Inl (lb, s, t) \<Rightarrow> (size t, 3 * size s + 2)
              | Inr (Inl (lb, s, t)) \<Rightarrow> (size t, 3 * size s + 1)
              | Inr (Inr (lb, s, gs)) \<Rightarrow> (size (TObject gs), 0))")
     (auto dest: size_fmlookup size_fset_member)

section \<open>The checker's type operators\<close>

text \<open>The finite map that is \<open>f\<close> on the keys of a finite set.\<close>

definition fmap_on_set :: "'a set \<Rightarrow> ('a \<Rightarrow> 'b option) \<Rightarrow> ('a, 'b) fmap" where
  "fmap_on_set A f = Abs_fmap (\<lambda>x. if finite A \<and> x \<in> A then f x else None)"

lemma fmlookup_fmap_on_set:
  "fmlookup (fmap_on_set A f) x = (if finite A \<and> x \<in> A then f x else None)"
proof -
  have "dom (\<lambda>x. if finite A \<and> x \<in> A then f x else None) \<subseteq> (if finite A then A else {})"
    by (auto split: if_splits)
  then have "finite (dom (\<lambda>x. if finite A \<and> x \<in> A then f x else None))"
    by (rule finite_subset) simp
  then show ?thesis
    by (simp add: fmap_on_set_def Abs_fmap_inverse)
qed

lemma fmap_on_set_code [code]:
  "fmap_on_set (set ks) f = fmap_of_list (List.map_filter (\<lambda>k. map_option (Pair k) (f k)) ks)"
proof (rule fmap_ext)
  fix x
  have "map_of (List.map_filter (\<lambda>k. map_option (Pair k) (f k)) ks) x
      = (if x \<in> set ks then f x else None)"
    by (induction ks) (auto simp: List.map_filter_simps split: option.splits)
  then show "fmlookup (fmap_on_set (set ks) f) x
      = fmlookup (fmap_of_list (List.map_filter (\<lambda>k. map_option (Pair k) (f k)) ks)) x"
    by (simp add: fmlookup_fmap_on_set fmlookup_of_list)
qed

definition fmap_on :: "'a fset \<Rightarrow> ('a \<Rightarrow> 'b option) \<Rightarrow> ('a, 'b) fmap" where
  "fmap_on S f = fmap_on_set (fset S) f"

lemma fmlookup_fmap_on [simp]:
  "fmlookup (fmap_on S f) k = (if k |\<in>| S then f k else None)"
  by (simp add: fmap_on_def fmlookup_fmap_on_set)

text \<open>Keys as types, and the key a type (a literal or a primitive) stands for.\<close>

fun key_types :: "key \<Rightarrow> ty fset" where
  "key_types (KName s) = {|TLit s|}"
| "key_types KString = {|TPrim PString, TPrim PNumber|}"
| "key_types KNumber = {|TPrim PNumber|}"
| "key_types KSymbol = {|TPrim PSymbol|}"

fun key_of_ty :: "ty \<Rightarrow> key option" where
  "key_of_ty (TLit s) = Some (KName s)"
| "key_of_ty (TPrim PString) = Some KString"
| "key_of_ty (TPrim PNumber) = Some KNumber"
| "key_of_ty (TPrim PSymbol) = Some KSymbol"
| "key_of_ty t = None"

definition all_keys :: "ty fset" where
  "all_keys = {|TPrim PString, TPrim PNumber, TPrim PSymbol|}"

text \<open>
  \<^verbatim>\<open>keyof T\<close>: the keys of the properties of \<open>T\<close>; of a union, the keys every constituent
  has; of \<^verbatim>\<open>never\<close>, \<^verbatim>\<open>string | number | symbol\<close>.
\<close>

definition keyof_atom :: "lib \<Rightarrow> ty \<Rightarrow> ty fset" where
  "keyof_atom lb m = ffUnion (key_types |`| fmdom (props lb m))"

definition keyof :: "lib \<Rightarrow> ty \<Rightarrow> ty" where
  "keyof lb T =
     mk_union (reduce_literals
       (ffilter (\<lambda>k. fBall (members T) (\<lambda>m. fBex (keyof_atom lb m) (\<lambda>k'. sub lb k k')))
          (all_keys |\<union>| ffUnion (keyof_atom lb |`| members T))))"

text \<open>
  The property of \<open>T\<close> at a key, with its modifiers: every key of \<^verbatim>\<open>never\<close> has type
  \<^verbatim>\<open>never\<close>; a property of a union is one of every constituent, has the union of their
  types, and is optional or readonly when it is so in one of them.
\<close>

definition property :: "lib \<Rightarrow> ty \<Rightarrow> key \<Rightarrow> fld option" where
  "property lb T k =
     (let ms = members T in
      if ms = {||} then Some (Fld TNever False False)
      else if fcard ms = 1 then lookup_prop (props lb (fthe_elem ms)) k
      else if fBall ms (\<lambda>m. lookup_prop (props lb m) k \<noteq> None)
      then Some (Fld (mk_union ((\<lambda>m. shape (the (lookup_prop (props lb m) k))) |`| ms))
                     (fBex ms (\<lambda>m. optional (the (lookup_prop (props lb m) k))))
                     (fBex ms (\<lambda>m. readonly (the (lookup_prop (props lb m) k)))))
      else None)"

text \<open>
  \<^verbatim>\<open>type Pick<T, K extends keyof T> = { [P in K]: T[P] }\<close> of the standard library: one
  property for each key of \<open>K\<close>, the property of \<open>T\<close> with its modifiers. A constituent
  of \<open>K\<close> that is no key gives no property.
\<close>

definition keys_of :: "ty \<Rightarrow> key fset" where
  "keys_of K = (\<lambda>t. the (key_of_ty t)) |`| ffilter (\<lambda>t. key_of_ty t \<noteq> None) (members K)"

definition Pick :: "lib \<Rightarrow> ty \<Rightarrow> ty \<Rightarrow> ty" where
  "Pick lb T K = TObject (fmap_on (keys_of K) (property lb T))"

text \<open>
  \<^verbatim>\<open>type Exclude<T, U> = T extends U ? never : T\<close> and
  \<^verbatim>\<open>type Extract<T, U> = T extends U ? T : never\<close>: the conditional distributes over the
  constituents of \<open>T\<close>.
\<close>

definition Exclude :: "lib \<Rightarrow> ty \<Rightarrow> ty \<Rightarrow> ty" where
  "Exclude lb T U = mk_union (ffilter (\<lambda>m. \<not> sub lb m U) (members T))"

definition Extract :: "lib \<Rightarrow> ty \<Rightarrow> ty \<Rightarrow> ty" where
  "Extract lb T U = mk_union (ffilter (\<lambda>m. sub lb m U) (members T))"


text \<open>
  The three tests the library makes of a constituent: \<^verbatim>\<open>extends (...args: any[]) => any\<close>
  (equally \<^verbatim>\<open>extends Function\<close>), \<^verbatim>\<open>extends any[]\<close> (equally \<^verbatim>\<open>extends Array<infer U>\<close>;
  a readonly array is not assignable to a mutable one), and \<^verbatim>\<open>extends object\<close>
  (\<open>is_object\<close> above). A type satisfies the constraint \<^verbatim>\<open>extends object\<close> when all its
  constituents do.
\<close>

fun is_function :: "ty \<Rightarrow> bool" where
  "is_function (TFun i) = True"
| "is_function (TInter a b) = (is_function a \<or> is_function b)"
| "is_function t = False"

fun is_array :: "ty \<Rightarrow> bool" where
  "is_array (TArray ro e) = (\<not> ro)"
| "is_array (TInter a b) = (is_array a \<or> is_array b)"
| "is_array t = False"

definition extends_object :: "ty \<Rightarrow> bool" where
  "extends_object T = fBall (members T) is_object"

section \<open>\<^verbatim>\<open>union.ts\<close>: the key-set algebra\<close>

text \<open>
  \<^verbatim>\<open>export type Intersect<UnionType1, UnionType2> = Extract<UnionType1, UnionType2>;\<close>
\<close>

definition Intersect :: "lib \<Rightarrow> ty \<Rightarrow> ty \<Rightarrow> ty" where
  "Intersect lb UnionType1 UnionType2 = Extract lb UnionType1 UnionType2"

text \<open>
  \<^verbatim>\<open>export type Substract<UnionType1, UnionType2> = Exclude<UnionType1, UnionType2>;\<close>
\<close>

definition Substract :: "lib \<Rightarrow> ty \<Rightarrow> ty \<Rightarrow> ty" where
  "Substract lb UnionType1 UnionType2 = Exclude lb UnionType1 UnionType2"

text \<open>
  \<^verbatim>\<open>export type Complement<UnionType1, UnionType2 extends UnionType1> =
      Substract<UnionType1, UnionType1>;\<close>
  The right-hand side names \<^verbatim>\<open>UnionType1\<close> twice; \<^verbatim>\<open>UnionType2\<close> is used by the
  constraint only.
\<close>

definition Complement :: "lib \<Rightarrow> ty \<Rightarrow> ty \<Rightarrow> error + ty" where
  "Complement lb UnionType1 UnionType2 =
     (if sub lb UnionType2 UnionType1 then Inr (Substract lb UnionType1 UnionType1)
      else Inl UnknownKeyError)"

text \<open>
  \<^verbatim>\<open>export type Difference<UnionType1, UnionType2> =
      Substract<UnionType1 | UnionType2, UnionType1 & UnionType2>;\<close>
\<close>

definition Difference :: "lib \<Rightarrow> ty \<Rightarrow> ty \<Rightarrow> ty" where
  "Difference lb UnionType1 UnionType2 =
     Substract lb (mk_union {|UnionType1, UnionType2|}) (inter_ty UnionType1 UnionType2)"

section \<open>\<^verbatim>\<open>basic.ts\<close>\<close>


section \<open>\<^verbatim>\<open>object.ts\<close>: projections\<close>

text \<open>
  \<^verbatim>\<open>export type PickByKey<ObjectType, KeyType extends keyof ObjectType> =
      Pick<ObjectType, KeyType>;\<close>
\<close>

definition PickByKey :: "lib \<Rightarrow> ty \<Rightarrow> ty \<Rightarrow> error + ty" where
  "PickByKey lb ObjectType KeyType =
     (if sub lb KeyType (keyof lb ObjectType) then Inr (Pick lb ObjectType KeyType)
      else Inl UnknownKeyError)"

text \<open>
  \<^verbatim>\<open>export type OmitByKey<ObjectType, KeyType extends keyof ObjectType> =
      Pick<ObjectType, Exclude<keyof ObjectType, KeyType>>;\<close>
\<close>

definition OmitByKey :: "lib \<Rightarrow> ty \<Rightarrow> ty \<Rightarrow> error + ty" where
  "OmitByKey lb ObjectType KeyType =
     (if sub lb KeyType (keyof lb ObjectType)
      then Inr (Pick lb ObjectType (Exclude lb (keyof lb ObjectType) KeyType))
      else Inl UnknownKeyError)"

section \<open>\<^verbatim>\<open>object.ts\<close>: deep transforms\<close>

text \<open>
  The type of a property a mapped type makes, from the type its template gives: a
  property that is optional in the result is read with \<^verbatim>\<open>undefined\<close> added, and
  \<^verbatim>\<open>-?\<close> on a property that was optional takes \<^verbatim>\<open>undefined\<close> out.
\<close>

definition mapped_shape :: "bool \<Rightarrow> bool \<Rightarrow> ty \<Rightarrow> ty" where
  "mapped_shape was now t =
     (if now then add_undefined t else if was then strip_undefined t else t)"

text \<open>
  Each of the four transforms is a conditional type on a type parameter, so it
  distributes over the constituents of its argument (the first equation), and tests one
  constituent (the second): a function is returned as it is; a mutable array goes to the
  array interface with its element type \<^verbatim>\<open>T[number]\<close>; any other object goes to the
  mapped type; a primitive is returned as it is (by \<^verbatim>\<open>DeepPartial\<close>, with
  \<^verbatim>\<open>undefined\<close> added). The mapped type is homomorphic (\<^verbatim>\<open>[P in keyof T]\<close>): on an
  object type it maps every property and keeps the modifiers it does not set; on an array
  type, which here is a readonly array, it maps the element type and gives an array
  again. An intersection that is not an object type given by its properties is returned
  as it is: the checker would go through its members, the library's among them, one by
  one as they are asked for, which a function that returns the whole type cannot do.

  \<^verbatim>\<open>export type DeepReadonly<T> = T extends (...args: any[]) => any ? T
      : T extends any[] ? _DeepReadonlyArray<T[number]>
      : T extends object ? _DeepReadonlyObject<T> : T;
  export interface _DeepReadonlyArray<T> extends ReadonlyArray<DeepReadonly<T>> {}
  export type _DeepReadonlyObject<T> = { readonly [P in keyof T]: DeepReadonly<T[P]> };\<close>
\<close>

function DeepReadonly :: "ty \<Rightarrow> ty"
  and DeepReadonly_of :: "ty \<Rightarrow> ty"
  and DeepReadonlyArray :: "ty \<Rightarrow> ty"
  and DeepReadonlyObject :: "ty \<Rightarrow> ty"
where
  "DeepReadonly T = mk_union (DeepReadonly_of |`| members T)"
| "DeepReadonly_of t =
     (if is_function t then t
      else if is_array t then (case t of TArray ro e \<Rightarrow> DeepReadonlyArray e | _ \<Rightarrow> t)
      else if is_object t then DeepReadonlyObject t
      else t)"
| "DeepReadonlyArray e = TArray True (DeepReadonly e)"
| "DeepReadonlyObject t =
     (case t of
        TObject fs \<Rightarrow>
          TObject (fmmap (\<lambda>f. Fld (mapped_shape (optional f) (optional f)
                                     (DeepReadonly (shape f)))
                                 (optional f) True) fs)
      | TArray ro e \<Rightarrow> TArray True (DeepReadonly e)
      | _ \<Rightarrow> t)"
  by pat_completeness auto
termination
  by (relation "measure (\<lambda>v. case v of
          Inl (Inl T) \<Rightarrow> 4 * size T + 3
        | Inl (Inr t) \<Rightarrow> 4 * size t + 2
        | Inr (Inl e) \<Rightarrow> 4 * size e + 4
        | Inr (Inr t) \<Rightarrow> 4 * size t + 1)")
     (auto dest: size_members size_fmran_member)





text \<open>
  \<^verbatim>\<open>export type DeepPartial<T> = T extends Function ? T
      : T extends Array<infer U> ? _DeepPartialArray<U>
      : T extends object ? _DeepPartialObject<T> : T | undefined;
  interface _DeepPartialArray<T> extends Array<DeepPartial<T>> { }
  type _DeepPartialObject<T> = { [P in keyof T]?: DeepPartial<T[P]> };\<close>
\<close>

function DeepPartial :: "ty \<Rightarrow> ty"
  and DeepPartial_of :: "ty \<Rightarrow> ty"
  and DeepPartialArray :: "ty \<Rightarrow> ty"
  and DeepPartialObject :: "ty \<Rightarrow> ty"
where
  "DeepPartial T = mk_union (DeepPartial_of |`| members T)"
| "DeepPartial_of t =
     (if is_function t then t
      else if is_array t then (case t of TArray ro U \<Rightarrow> DeepPartialArray U | _ \<Rightarrow> t)
      else if is_object t then DeepPartialObject t
      else mk_union {|t, TPrim PUndefined|})"
| "DeepPartialArray U = TArray False (DeepPartial U)"
| "DeepPartialObject t =
     (case t of
        TObject fs \<Rightarrow>
          TObject (fmmap (\<lambda>f. Fld (mapped_shape (optional f) True (DeepPartial (shape f)))
                                 True (readonly f)) fs)
      | TArray ro e \<Rightarrow> TArray ro (mapped_shape False True (DeepPartial e))
      | _ \<Rightarrow> t)"
  by pat_completeness auto
termination
  by (relation "measure (\<lambda>v. case v of
          Inl (Inl T) \<Rightarrow> 4 * size T + 3
        | Inl (Inr t) \<Rightarrow> 4 * size t + 2
        | Inr (Inl e) \<Rightarrow> 4 * size e + 4
        | Inr (Inr t) \<Rightarrow> 4 * size t + 1)")
     (auto dest: size_members size_fmran_member)

section \<open>\<^verbatim>\<open>object.ts\<close>: merges\<close>

text \<open>
  \<^verbatim>\<open>export type ObjectIntersect<T extends object, U extends object> = T extends any
      ? Pick<T, Intersect<keyof T, keyof U>> : never;\<close>
  The conditional distributes over the constituents of \<open>T\<close>.
\<close>

definition ObjectIntersect :: "lib \<Rightarrow> ty \<Rightarrow> ty \<Rightarrow> error + ty" where
  "ObjectIntersect lb T U =
     (if extends_object T \<and> extends_object U
      then Inr (mk_union ((\<lambda>m. Pick lb m (Intersect lb (keyof lb m) (keyof lb U))) |`| members T))
      else Inl StructuralPreconditionError)"

text \<open>
  \<^verbatim>\<open>export type ObjectSubtract<T extends object, U extends object> =
      Pick<T, Substract<keyof T, keyof U>>;\<close>
\<close>

definition ObjectSubtract :: "lib \<Rightarrow> ty \<Rightarrow> ty \<Rightarrow> error + ty" where
  "ObjectSubtract lb T U =
     (if extends_object T \<and> extends_object U
      then Inr (Pick lb T (Substract lb (keyof lb T) (keyof lb U)))
      else Inl StructuralPreconditionError)"

text \<open>
  \<^verbatim>\<open>export type MergeOverride<T extends object, U extends object,
      I = ObjectSubtract<T, U> & Intersect<U, T>> = Pick<I, keyof I>;\<close>
  \<^verbatim>\<open>Intersect\<close> is the alias of \<^verbatim>\<open>union.ts\<close>, \<^verbatim>\<open>Extract\<close>, applied to the two object
  types themselves: it is \<open>U\<close> when \<open>U\<close> is assignable to \<open>T\<close>, and \<^verbatim>\<open>never\<close> when
  it is not. The third parameter is taken at its default.
\<close>

definition MergeOverride :: "lib \<Rightarrow> ty \<Rightarrow> ty \<Rightarrow> error + ty" where
  "MergeOverride lb T U =
     (case ObjectSubtract lb T U of
        Inl e \<Rightarrow> Inl e
      | Inr D \<Rightarrow> (let I = inter_ty D (Intersect lb U T) in Inr (Pick lb I (keyof lb I))))"

text \<open>
  \<^verbatim>\<open>export type Merge<T extends object, U extends object,
      I = ObjectSubtract<T, U> & Intersect<U, T> & ObjectSubtract<U, T>> = Pick<I, keyof I>;\<close>
\<close>

definition Merge :: "lib \<Rightarrow> ty \<Rightarrow> ty \<Rightarrow> error + ty" where
  "Merge lb T U =
     (case ObjectSubtract lb T U of
        Inl e \<Rightarrow> Inl e
      | Inr D \<Rightarrow>
          (case ObjectSubtract lb U T of
             Inl e \<Rightarrow> Inl e
           | Inr D' \<Rightarrow>
               (let I = inter_ty (inter_ty D (Intersect lb U T)) D'
                in Inr (Pick lb I (keyof lb I)))))"




section \<open>The examples of the documentation\<close>

text \<open>
  \<^verbatim>\<open>type Props = { name: string; age: number; visible: boolean };\<close> and
  \<^verbatim>\<open>type NewProps = { age: string; other: string };\<close>, the two object types of the
  examples in the comments of \<^verbatim>\<open>MergeOverride\<close> and \<^verbatim>\<open>Merge\<close>.
\<close>

definition Props_fields :: fields where
  "Props_fields = fmap_of_list
     [(KName ''name'', Fld (TPrim PString) False False),
      (KName ''age'', Fld (TPrim PNumber) False False),
      (KName ''visible'', Fld (TPrim PBoolean) False False)]"

definition Props :: ty where
  "Props = TObject Props_fields"

definition NewProps :: ty where
  "NewProps = TObject (fmap_of_list
     [(KName ''age'', Fld (TPrim PString) False False),
      (KName ''other'', Fld (TPrim PString) False False)])"

text \<open>
  The type whose every key has type \<^verbatim>\<open>never\<close>,
  \<^verbatim>\<open>{ [x: string]: never; [x: number]: never; [x: symbol]: never }\<close>: what
  \<^verbatim>\<open>Pick<never, keyof never>\<close> is.
\<close>

definition never_indexed :: ty where
  "never_indexed = TObject (fmap_of_list
     [(KString, Fld TNever False False),
      (KNumber, Fld TNever False False),
      (KSymbol, Fld TNever False False)])"

text \<open>
  A Record of the specification: an object type whose keys are all names (it has no
  index signature).
\<close>

fun is_name :: "key \<Rightarrow> bool" where
  "is_name (KName s) = True"
| "is_name k = False"

definition record_schema :: "ty \<Rightarrow> bool" where
  "record_schema T = (case T of TObject fs \<Rightarrow> fBall (fmdom fs) is_name | _ \<Rightarrow> False)"

text \<open>
  A set of names given as a type, as the key arguments of the projections are: every
  constituent is a string literal.
\<close>

definition name_set :: "ty \<Rightarrow> bool" where
  "name_set K = fBall (members K) is_lit"

text \<open>The names of the properties of an object type, as types.\<close>

definition names_of :: "fields \<Rightarrow> ty fset" where
  "names_of fs = ffUnion (key_types |`| fmdom fs)"

text \<open>
  The table of a library that declares nothing, for evaluating the operations on inputs
  that have no member of the library's: no operation looks at the table when its inputs
  are object types given by their properties.
\<close>

definition no_lib :: lib where
  "no_lib t = fmempty"



section \<open>Fields at every depth\<close>






section \<open>Assignability of a type to itself and of a constituent to its union\<close>

declare sub.simps [simp del]

lemma sub_refl [simp]: "sub lb t t"
  by (simp add: sub.simps)

lemma members_not_union [simp]: "TUnion x |\<notin>| members t"
  by (induction t rule: members.induct) (auto simp: mem_ffUnion)

lemma members_not_never [simp]: "TNever |\<notin>| members t"
  by (induction t rule: members.induct) (auto simp: mem_ffUnion)

lemma sub_atom_union:
  assumes "members m = {|m|}" and "t |\<in>| ts" and "sub lb m t"
  shows "sub lb m (TUnion ts)"
proof -
  from assms(2,3) have "fBex ts (\<lambda>t. sub lb m t)" by blast
  moreover from assms(1) have "m |\<in>| members m" by simp
  then have "m \<noteq> TNever" "\<And>x. m \<noteq> TUnion x"
    using members_not_never members_not_union by metis+
  ultimately have "sub_rules lb m (TUnion ts)"
    by (cases m; simp; blast)
  then show ?thesis by (simp add: sub.simps)
qed


lemma sub_member: "m |\<in>| members t \<Longrightarrow> sub lb m t"
proof (induction t rule: members.induct)
  case (2 ts)
  then obtain t where t: "t |\<in>| ts" "m |\<in>| members t"
    by (auto simp: mem_ffUnion)
  with 2 have "sub lb m t" by blast
  moreover from t(2) have "members m = {|m|}" by (rule members_atom)
  ultimately show ?case using t(1) sub_atom_union by blast
qed auto

lemma mk_union_empty [simp]: "mk_union {||} = TNever"
  by (simp add: mk_union_def of_members_def)

lemma Substract_self: "Substract lb A A = TNever"
proof -
  have "ffilter (\<lambda>m. \<not> sub lb m A) (members A) = {||}"
    by (auto dest: sub_member)
  then show ?thesis by (simp add: Substract_def Exclude_def)
qed

section \<open>The key-set algebra: \<^verbatim>\<open>Complement\<close>\<close>

text \<open>
  C1. The claim: for record schemas \<open>A\<close> and \<open>A1\<close>, the names of \<open>A1\<close> among those of
  \<open>A\<close>, \<^verbatim>\<open>Complement(A, A1)\<close> is exactly the names of \<open>A\<close> that are not names of
  \<open>A1\<close>; for the names \<^verbatim>\<open>'1' | '2' | '3'\<close> and \<^verbatim>\<open>'2' | '3'\<close> it is \<^verbatim>\<open>'1'\<close>, which is
  also what the comment above \<^verbatim>\<open>Complement\<close> expects. The code does something else:
  whatever its arguments, \<^verbatim>\<open>Complement\<close> is rejected or is \<^verbatim>\<open>never\<close>, the empty set
  of names, and at the example of the comment it is \<^verbatim>\<open>never\<close>, while \<^verbatim>\<open>Substract\<close>
  of the same two arguments is \<^verbatim>\<open>'1'\<close>.
\<close>

theorem Complement_is_never:
  "(Complement lb A A1 = Inr TNever \<or> Complement lb A A1 = Inl UnknownKeyError)
   \<and> Complement lb (TUnion {|TLit ''1'', TLit ''2'', TLit ''3''|})
        (TUnion {|TLit ''2'', TLit ''3''|}) = Inr TNever
   \<and> Substract lb (TUnion {|TLit ''1'', TLit ''2'', TLit ''3''|})
        (TUnion {|TLit ''2'', TLit ''3''|}) = TLit ''1''"
proof (intro conjI)
  show "Complement lb A A1 = Inr TNever \<or> Complement lb A A1 = Inl UnknownKeyError"
    by (simp add: Complement_def Substract_self)
  show "Complement lb (TUnion {|TLit ''1'', TLit ''2'', TLit ''3''|})
        (TUnion {|TLit ''2'', TLit ''3''|}) = Inr TNever"
    by code_simp
  show "Substract lb (TUnion {|TLit ''1'', TLit ''2'', TLit ''3''|})
        (TUnion {|TLit ''2'', TLit ''3''|}) = TLit ''1''"
    by code_simp
qed

section \<open>The merges at the documented example\<close>

text \<open>
  C2. The claim: \<^verbatim>\<open>MergeOverride(T, U)\<close> has the fields of \<open>T\<close> whose names are not in
  \<open>U\<close>, from \<open>T\<close>, and the fields whose names are in both, from \<open>U\<close>; for \<^verbatim>\<open>Props\<close>
  and \<^verbatim>\<open>NewProps\<close> it is \<^verbatim>\<open>{ name: string; age: string; visible: boolean }\<close>, which is
  also what the comment above \<^verbatim>\<open>MergeOverride\<close> expects. The code: \<^verbatim>\<open>NewProps\<close> is not
  assignable to \<^verbatim>\<open>Props\<close>, so \<^verbatim>\<open>Intersect<NewProps, Props>\<close> is \<^verbatim>\<open>never\<close>, the
  intersection is \<^verbatim>\<open>never\<close>, and the result is the type whose every key has type
  \<^verbatim>\<open>never\<close>: it has none of the three fields. \<^verbatim>\<open>ObjectIntersect<NewProps, Props>\<close>, the
  alias of \<^verbatim>\<open>object.ts\<close>, is the field \<^verbatim>\<open>age: string\<close> the claim takes from \<open>U\<close>.
\<close>

theorem MergeOverride_Props_NewProps:
  "MergeOverride lb Props NewProps = Inr never_indexed
   \<and> Intersect lb NewProps Props = TNever
   \<and> ObjectIntersect lb NewProps Props
       = Inr (TObject (fmap_of_list [(KName ''age'', Fld (TPrim PString) False False)]))"
proof (intro conjI)
  show "MergeOverride lb Props NewProps = Inr never_indexed"
    by code_simp
  show "Intersect lb NewProps Props = TNever"
    by code_simp
  show "ObjectIntersect lb NewProps Props
       = Inr (TObject (fmap_of_list [(KName ''age'', Fld (TPrim PString) False False)]))"
    by code_simp
qed

text \<open>
  C3. The claim: the field names of \<^verbatim>\<open>Merge(T, U)\<close> are those of \<open>T\<close> and those of
  \<open>U\<close>, a name of both has the shape it has in \<open>U\<close>; for \<^verbatim>\<open>Props\<close> and \<^verbatim>\<open>NewProps\<close>
  it is \<^verbatim>\<open>{ name: string; age: string; visible: boolean; other: string }\<close>. The comment
  above \<^verbatim>\<open>Merge\<close> expects these four names too. The code: as for \<^verbatim>\<open>MergeOverride\<close>,
  \<^verbatim>\<open>Intersect<NewProps, Props>\<close> is \<^verbatim>\<open>never\<close>, and the result is the type whose every
  key has type \<^verbatim>\<open>never\<close>; none of the four names is a name of it.
\<close>

theorem Merge_Props_NewProps:
  "Merge lb Props NewProps = Inr never_indexed
   \<and> keyof lb never_indexed = TUnion {|TPrim PString, TPrim PNumber, TPrim PSymbol|}"
proof (intro conjI)
  show "Merge lb Props NewProps = Inr never_indexed"
    by code_simp
  show "keyof lb never_indexed = TUnion {|TPrim PString, TPrim PNumber, TPrim PSymbol|}"
    by code_simp
qed


theorem Merge_Props_NewProps_witness:
  "Merge no_lib Props NewProps = Inr never_indexed
   \<and> keyof no_lib never_indexed = TUnion {|TPrim PString, TPrim PNumber, TPrim PSymbol|}"
  using Merge_Props_NewProps [of no_lib] by simp

section \<open>Records: keys, \<^verbatim>\<open>Pick\<close> of all keys\<close>

lemma members_of_members:
  assumes "\<And>m. m |\<in>| S \<Longrightarrow> members m = {|m|}"
  shows "members (of_members S) = S"
proof -
  consider "S = {||}" | m where "S = {|m|}" | "S \<noteq> {||}" "fcard S \<noteq> 1"
    using fcard_1E by blast
  then show ?thesis
  proof cases
    case 1 then show ?thesis by (simp add: of_members_def)
  next
    case 2 with assms show ?thesis by simp
  next
    case 3
    then have "of_members S = TUnion S" by (simp add: of_members_def)
    then show ?thesis using members_flat [OF assms] by simp
  qed
qed

lemma mk_union_atom: "members m = {|m|} \<Longrightarrow> mk_union {|m|} = m"
  by (simp add: mk_union_def)

lemma key_types_atom: "m |\<in>| key_types k \<Longrightarrow> members m = {|m|}"
  by (cases k) auto

lemma names_atoms: "m |\<in>| names_of fs \<Longrightarrow> members m = {|m|}"
  by (auto simp: names_of_def mem_ffUnion dest: key_types_atom)

lemma names_of_iff:
  assumes "fBall (fmdom fs) is_name"
  shows "t |\<in>| names_of fs \<longleftrightarrow> (\<exists>s. t = TLit s \<and> KName s |\<in>| fmdom fs)"
proof
  assume "t |\<in>| names_of fs"
  then obtain k where k: "k |\<in>| fmdom fs" "t |\<in>| key_types k"
    by (auto simp: names_of_def mem_ffUnion)
  with assms have "is_name k" by blast
  with k show "\<exists>s. t = TLit s \<and> KName s |\<in>| fmdom fs"
    by (cases k) auto
next
  assume "\<exists>s. t = TLit s \<and> KName s |\<in>| fmdom fs"
  then obtain s where "t = TLit s" "KName s |\<in>| fmdom fs" by blast
  then show "t |\<in>| names_of fs"
    by (auto simp: names_of_def mem_ffUnion intro!: bexI [of _ "KName s"])
qed

lemma keyof_record:
  assumes "fBall (fmdom fs) is_name"
  shows "keyof lb (TObject fs) = of_members (names_of fs)"
proof -
  let ?N = "names_of fs"
  have N: "keyof_atom lb (TObject fs) = ?N"
    by (simp add: keyof_atom_def names_of_def)
  have "ffilter (\<lambda>k. fBex ?N (\<lambda>k'. sub lb k k')) (all_keys |\<union>| ?N) = ?N"
  proof (rule fset_eqI)
    fix k
    show "k |\<in>| ffilter (\<lambda>k. fBex ?N (\<lambda>k'. sub lb k k')) (all_keys |\<union>| ?N) \<longleftrightarrow> k |\<in>| ?N"
      using names_of_iff [OF assms]
      by (auto simp: all_keys_def sub.simps)
  qed
  moreover have "reduce_literals ?N = ?N"
    using names_of_iff [OF assms] by (auto simp: reduce_literals_def)
  moreover have "mk_union ?N = of_members ?N"
    by (simp add: mk_union_def members_flat names_atoms)
  ultimately show ?thesis
    by (simp add: keyof_def N)
qed

lemma keys_of_names:
  assumes "fBall (fmdom fs) is_name"
  shows "keys_of (of_members (names_of fs)) = fmdom fs"
proof -
  have m: "members (of_members (names_of fs)) = names_of fs"
    by (rule members_of_members) (rule names_atoms)
  show ?thesis
  proof (rule fset_eqI)
    fix k
    show "k |\<in>| keys_of (of_members (names_of fs)) \<longleftrightarrow> k |\<in>| fmdom fs"
    proof
      assume "k |\<in>| keys_of (of_members (names_of fs))"
      then obtain t where "t |\<in>| names_of fs" "k = the (key_of_ty t)"
        unfolding keys_of_def m by auto
      then show "k |\<in>| fmdom fs"
        using names_of_iff [OF assms] by auto
    next
      assume k: "k |\<in>| fmdom fs"
      with assms have "is_name k" by blast
      then obtain s where s: "k = KName s" by (cases k) auto
      with k have "TLit s |\<in>| names_of fs"
        using names_of_iff [OF assms] by blast
      moreover have "key_of_ty (TLit s) \<noteq> None" "the (key_of_ty (TLit s)) = k"
        using s by simp_all
      ultimately show "k |\<in>| keys_of (of_members (names_of fs))"
        unfolding keys_of_def m by (metis (mono_tags, lifting) ffmember_filter fimageI)
    qed
  qed
qed

lemma fmap_on_lookup: "fmap_on (fmdom fs) (fmlookup fs) = fs"
  by (rule fmap_ext) (auto simp: fmdom_notD)

lemma fmap_on_empty [simp]: "fmap_on {||} f = fmempty"
  by (rule fmap_ext) simp

lemma members_TObject_single: "members (TObject fs) = {|TObject fs|}"
  by simp

lemma property_record:
  "property lb (TObject fs) k = lookup_prop fs k"
  by (simp add: property_def)

lemma Pick_record_all:
  assumes "fBall (fmdom fs) is_name"
  shows "Pick lb (TObject fs) (keyof lb (TObject fs)) = TObject fs"
proof -
  have "fmap_on (fmdom fs) (property lb (TObject fs)) = fs"
    by (rule fmap_ext) (auto simp: property_record lookup_prop_def fmdom_notD split: option.splits)
  then show ?thesis
    by (simp add: Pick_def keyof_record [OF assms] keys_of_names [OF assms])
qed

lemma Extract_self_atom:
  assumes "members T = {|T|}"
  shows "Extract lb T T = T"
proof -
  have "ffilter (\<lambda>m. sub lb m T) {|T|} = {|T|}" by auto
  with assms show ?thesis by (simp add: Extract_def mk_union_atom)
qed

lemma keys_of_never [simp]: "keys_of TNever = {||}"
  by (auto simp: keys_of_def)

lemma inter_empty_object: "inter_ty (TObject fmempty) (TObject fs) = TObject fs"
  by (simp add: inter_ty.simps inter_atom.simps mk_union_atom)

section \<open>Merging a record with itself\<close>

text \<open>
  C4. For every record schema \<open>T\<close>, \<^verbatim>\<open>MergeOverride(T, T)\<close> is \<open>T\<close>: \<open>T\<close> is assignable
  to itself, so \<^verbatim>\<open>Intersect<T, T>\<close> is \<open>T\<close>; \<^verbatim>\<open>ObjectSubtract<T, T>\<close> is \<^verbatim>\<open>{}\<close>, and
  \<^verbatim>\<open>Pick\<close> of the intersection over all its keys lists the properties of \<open>T\<close> with
  their modifiers.
\<close>

theorem MergeOverride_self:
  assumes "record_schema T"
  shows "MergeOverride lb T T = Inr T"
proof -
  from assms obtain fs where T: "T = TObject fs" and named: "fBall (fmdom fs) is_name"
    by (auto simp: record_schema_def split: ty.splits)
  have D: "ObjectSubtract lb (TObject fs) (TObject fs) = Inr (TObject fmempty)"
    by (simp add: ObjectSubtract_def extends_object_def Substract_self Pick_def)
  have I: "Intersect lb (TObject fs) (TObject fs) = TObject fs"
    by (simp add: Intersect_def Extract_self_atom)
  show ?thesis
    unfolding T MergeOverride_def D I
    by (simp add: inter_empty_object Pick_record_all [OF named])
qed



theorem MergeOverride_self_witness:
  "record_schema Props \<and> MergeOverride no_lib Props Props = Inr Props"
proof -
  have h: "record_schema Props" by code_simp
  show ?thesis using h MergeOverride_self [OF h, of no_lib] by simp
qed

section \<open>Projections by key\<close>

lemma sub_distrib: "sub lb s t \<longleftrightarrow> fBall (members s) (\<lambda>m. sub lb m t)"
proof (induction s rule: members.induct)
  case 1
  show ?case by (simp add: sub.simps)
next
  case (2 ss)
  have a: "fBall (members (TUnion ss)) (\<lambda>m. sub lb m t) \<longleftrightarrow> fBall ss (\<lambda>s. sub lb s t)"
    using 2 by (auto simp: mem_ffUnion)
  show ?case
  proof (cases "TUnion ss = t")
    case True
    have "fBall (members (TUnion ss)) (\<lambda>m. sub lb m (TUnion ss))"
      using sub_member by blast
    with a True show ?thesis by simp
  next
    case False
    with a show ?thesis by (simp add: sub.simps)
  qed
qed simp_all

lemma sub_lit_target:
  assumes "fBall (members K) is_lit"
  shows "sub lb (TLit s) K \<longleftrightarrow> TLit s |\<in>| members K"
  using assms
proof (induction K rule: members.induct)
  case 1
  show ?case by (simp add: sub.simps)
next
  case (2 ts)
  have "\<And>t. t |\<in>| ts \<Longrightarrow> sub lb (TLit s) t \<longleftrightarrow> TLit s |\<in>| members t"
  proof -
    fix t assume t: "t |\<in>| ts"
    with 2(2) have "fBall (members t) is_lit" by (auto simp: mem_ffUnion)
    with 2(1) t show "sub lb (TLit s) t \<longleftrightarrow> TLit s |\<in>| members t" by blast
  qed
  then show ?case by (auto simp: sub.simps mem_ffUnion)
qed (auto simp: sub.simps)

lemma names_all_lit: "fBall (fmdom fs) is_name \<Longrightarrow> fBall (names_of fs) is_lit"
  using names_of_iff by auto

lemma members_names:
  "members (of_members (names_of fs)) = names_of fs"
  by (rule members_of_members) (rule names_atoms)

lemma is_lit_E: "is_lit m \<Longrightarrow> \<exists>s. m = TLit s"
  by (cases m) auto

lemma keys_of_lits:
  assumes "fBall (members K) is_lit"
  shows "k |\<in>| keys_of K \<longleftrightarrow> (\<exists>s. k = KName s \<and> TLit s |\<in>| members K)"
proof
  assume "k |\<in>| keys_of K"
  then obtain t where t: "t |\<in>| members K" "k = the (key_of_ty t)"
    by (auto simp: keys_of_def)
  with assms obtain s where "t = TLit s" using is_lit_E by blast
  with t show "\<exists>s. k = KName s \<and> TLit s |\<in>| members K" by auto
next
  assume "\<exists>s. k = KName s \<and> TLit s |\<in>| members K"
  then obtain s where s: "k = KName s" "TLit s |\<in>| members K" by blast
  moreover have "key_of_ty (TLit s) \<noteq> None" "the (key_of_ty (TLit s)) = k"
    using s by simp_all
  ultimately show "k |\<in>| keys_of K"
    unfolding keys_of_def by (metis (mono_tags, lifting) ffmember_filter fimageI)
qed

lemma constraint_record:
  assumes named: "fBall (fmdom fs) is_name" and lits: "fBall (members K) is_lit"
  shows "sub lb K (keyof lb (TObject fs)) \<longleftrightarrow> keys_of K |\<subseteq>| fmdom fs"
proof -
  have N: "fBall (members (of_members (names_of fs))) is_lit"
    using names_all_lit [OF named] by (simp add: members_names)
  have "sub lb K (keyof lb (TObject fs))
      \<longleftrightarrow> fBall (members K) (\<lambda>m. sub lb m (of_members (names_of fs)))"
    by (subst sub_distrib) (simp add: keyof_record [OF named])
  also have "\<dots> \<longleftrightarrow> (\<forall>s. TLit s |\<in>| members K \<longrightarrow> TLit s |\<in>| names_of fs)"
  proof -
    have "\<And>m. m |\<in>| members K \<Longrightarrow>
        sub lb m (of_members (names_of fs)) \<longleftrightarrow> m |\<in>| names_of fs"
    proof -
      fix m assume "m |\<in>| members K"
      with lits obtain s where "m = TLit s" using is_lit_E by blast
      then show "sub lb m (of_members (names_of fs)) \<longleftrightarrow> m |\<in>| names_of fs"
        using sub_lit_target [OF N] by (simp add: members_names)
    qed
    moreover have "\<And>m. m |\<in>| members K \<Longrightarrow> \<exists>s. m = TLit s"
      using lits is_lit_E by blast
    ultimately show ?thesis by blast
  qed
  also have "\<dots> \<longleftrightarrow> keys_of K |\<subseteq>| fmdom fs"
    using keys_of_lits [OF lits] names_of_iff [OF named] by auto
  finally show ?thesis .
qed


lemma lookup_prop_named:
  assumes "fBall (fmdom fs) is_name"
  shows "lookup_prop fs k = fmlookup fs k"
proof -
  have "fmlookup fs KString = None"
  proof (rule ccontr)
    assume "fmlookup fs KString \<noteq> None"
    then have "KString |\<in>| fmdom fs" by (auto intro: fmdomI)
    with assms have "is_name KString" by blast
    then show False by simp
  qed
  then show ?thesis
    by (auto simp: lookup_prop_def split: option.splits key.splits)
qed

lemma Pick_record:
  assumes "fBall (fmdom fs) is_name"
  shows "Pick lb (TObject fs) K = TObject (fmrestrict_fset (keys_of K) fs)"
proof -
  have "fmap_on (keys_of K) (property lb (TObject fs)) = fmrestrict_fset (keys_of K) fs"
    by (rule fmap_ext) (simp add: property_record lookup_prop_named [OF assms])
  then show ?thesis by (simp add: Pick_def)
qed

lemma keys_of_Exclude:
  assumes named: "fBall (fmdom fs) is_name" and lits: "fBall (members K) is_lit"
  shows "keys_of (Exclude lb (keyof lb (TObject fs)) K) = fmdom fs |-| keys_of K"
proof -
  let ?S = "ffilter (\<lambda>m. \<not> sub lb m K) (names_of fs)"
  have atoms: "\<And>m. m |\<in>| ?S \<Longrightarrow> members m = {|m|}"
    using names_atoms by auto
  have "ffUnion (members |`| ?S) = ?S"
    by (rule members_flat) (rule atoms)
  then have E: "Exclude lb (keyof lb (TObject fs)) K = of_members ?S"
    by (simp add: Exclude_def keyof_record [OF named] members_names mk_union_def)
  have S: "\<And>t. t |\<in>| ?S \<longleftrightarrow> (\<exists>s. t = TLit s \<and> KName s |\<in>| fmdom fs \<and> TLit s |\<notin>| members K)"
    using names_of_iff [OF named] sub_lit_target [OF lits] by auto
  have m: "members (of_members ?S) = ?S"
    by (rule members_of_members) (rule atoms)
  have litsS: "fBall (members (of_members ?S)) is_lit"
    unfolding m using names_all_lit [OF named] by auto
  show ?thesis
  proof (rule fset_eqI)
    fix k
    show "k |\<in>| keys_of (Exclude lb (keyof lb (TObject fs)) K) \<longleftrightarrow> k |\<in>| fmdom fs |-| keys_of K"
      unfolding E keys_of_lits [OF litsS] m
      using S keys_of_lits [OF lits] named
      by (cases k) auto
  qed
qed

text \<open>
  C8. The claim: for a record \<open>R\<close> with names \<open>N\<close> and a name set \<open>K\<close>,
  \<^verbatim>\<open>OmitByKey(R, K)\<close> has the names \<open>N \ K\<close> for any \<open>K\<close>, names of \<open>K\<close> that \<open>R\<close>
  does not have being ignored; \<^verbatim>\<open>PickByKey(R, K)\<close> has the names \<open>K\<close> when \<open>K\<close> is
  among \<open>N\<close> and fails with \<^verbatim>\<open>UnknownKeyError\<close> otherwise. The part on \<^verbatim>\<open>OmitByKey\<close>
  and unknown names fails: \<^verbatim>\<open>OmitByKey\<close> declares its key parameter
  \<^verbatim>\<open>KeyType extends keyof ObjectType\<close>, as \<^verbatim>\<open>PickByKey\<close> does, and a name that is not
  a key of \<^verbatim>\<open>Props\<close> is rejected.
\<close>

theorem OmitByKey_unknown_counterexample:
  "OmitByKey no_lib Props (TLit ''other'') = Inl UnknownKeyError"
  by code_simp

text \<open>
  C8, as amended. For a record with fields \<open>fs\<close> and a name set \<open>K\<close>: when the names of
  \<open>K\<close> are all names of the record, \<^verbatim>\<open>PickByKey\<close> is the record of the fields named in
  \<open>K\<close>, whose names are \<open>K\<close>, and \<^verbatim>\<open>OmitByKey\<close> is the record of the other fields,
  whose names are \<open>N \ K\<close>; when some name of \<open>K\<close> is not a name of the record, both
  fail with \<^verbatim>\<open>UnknownKeyError\<close>.
\<close>

theorem ByKey_strict:
  assumes "record_schema (TObject fs)" and "name_set K"
  shows "(keys_of K |\<subseteq>| fmdom fs \<longrightarrow>
            PickByKey lb (TObject fs) K = Inr (TObject (fmrestrict_fset (keys_of K) fs))
          \<and> fmdom (fmrestrict_fset (keys_of K) fs) = keys_of K
          \<and> OmitByKey lb (TObject fs) K = Inr (TObject (fmdrop_fset (keys_of K) fs))
          \<and> fmdom (fmdrop_fset (keys_of K) fs) = fmdom fs |-| keys_of K)
       \<and> (\<not> keys_of K |\<subseteq>| fmdom fs \<longrightarrow>
            PickByKey lb (TObject fs) K = Inl UnknownKeyError
          \<and> OmitByKey lb (TObject fs) K = Inl UnknownKeyError)"
proof -
  from assms have named: "fBall (fmdom fs) is_name" and lits: "fBall (members K) is_lit"
    by (simp_all add: record_schema_def name_set_def)
  have c: "sub lb K (keyof lb (TObject fs)) \<longleftrightarrow> keys_of K |\<subseteq>| fmdom fs"
    by (rule constraint_record [OF named lits])
  have "fmrestrict_fset (fmdom fs |-| keys_of K) fs = fmdrop_fset (keys_of K) fs"
    by (rule fmap_ext) (auto simp: fmdom_notD)
  then have o: "Pick lb (TObject fs) (Exclude lb (keyof lb (TObject fs)) K)
      = TObject (fmdrop_fset (keys_of K) fs)"
    by (simp add: Pick_record [OF named] keys_of_Exclude [OF named lits])
  have d: "keys_of K |\<subseteq>| fmdom fs \<Longrightarrow> fmdom (fmrestrict_fset (keys_of K) fs) = keys_of K"
    unfolding fmfilter_alt_defs by auto
  show ?thesis
    by (simp add: PickByKey_def OmitByKey_def c o d Pick_record [OF named, of lb K])
qed

theorem ByKey_strict_witness:
  "record_schema (TObject Props_fields) \<and> name_set (TLit ''age'') \<and> name_set (TLit ''other'')
   \<and> PickByKey no_lib (TObject Props_fields) (TLit ''age'')
       = Inr (TObject (fmap_of_list [(KName ''age'', Fld (TPrim PNumber) False False)]))
   \<and> OmitByKey no_lib (TObject Props_fields) (TLit ''age'')
       = Inr (TObject (fmap_of_list
           [(KName ''name'', Fld (TPrim PString) False False),
            (KName ''visible'', Fld (TPrim PBoolean) False False)]))
   \<and> PickByKey no_lib (TObject Props_fields) (TLit ''other'') = Inl UnknownKeyError
   \<and> OmitByKey no_lib (TObject Props_fields) (TLit ''other'') = Inl UnknownKeyError"
proof -
  have r: "record_schema (TObject Props_fields)" by code_simp
  have k1: "name_set (TLit ''age'')" and k2: "name_set (TLit ''other'')" by code_simp+
  have s1: "keys_of (TLit ''age'') |\<subseteq>| fmdom Props_fields" by code_simp
  have s2: "\<not> keys_of (TLit ''other'') |\<subseteq>| fmdom Props_fields" by code_simp
  have e1: "fmrestrict_fset (keys_of (TLit ''age'')) Props_fields
      = fmap_of_list [(KName ''age'', Fld (TPrim PNumber) False False)]" by code_simp
  have e2: "fmdrop_fset (keys_of (TLit ''age'')) Props_fields
      = fmap_of_list [(KName ''name'', Fld (TPrim PString) False False),
            (KName ''visible'', Fld (TPrim PBoolean) False False)]" by code_simp
  show ?thesis
    using r k1 k2 s1 s2 e1 e2
      ByKey_strict [OF r k1, of no_lib] ByKey_strict [OF r k2, of no_lib]
    by simp
qed


section \<open>The exclusive merge of two records\<close>















section \<open>Inputs that are not records\<close>

lemma members_mk_union: "members (mk_union S) = ffUnion (members |`| S)"
  unfolding mk_union_def
  by (rule members_of_members) (auto simp: mem_ffUnion dest: members_atom)





section \<open>The deep transforms\<close>

declare DeepReadonly.simps [simp del] DeepReadonly_of.simps [simp del]
  DeepReadonlyArray.simps [simp del] DeepReadonlyObject.simps [simp del]
declare DeepPartial.simps [simp del] DeepPartial_of.simps [simp del]
  DeepPartialArray.simps [simp del] DeepPartialObject.simps [simp del]






lemma mk_union_prim [simp]: "mk_union {|TPrim p|} = TPrim p"
  by (simp add: mk_union_def)

lemma add_undefined_members: "members (add_undefined t) = members t |\<union>| {|TPrim PUndefined|}"
  by (simp add: add_undefined_def members_mk_union)




subsection \<open>\<^verbatim>\<open>DeepReadonly\<close>\<close>

lemma DeepReadonly_of_simps:
  "DeepReadonly_of (TPrim p) = TPrim p"
  "DeepReadonly_of (TLit s) = TLit s"
  "DeepReadonly_of (TFun i) = TFun i"
  "DeepReadonly_of (TInter a b) = TInter a b"
  "DeepReadonly_of (TArray ro e) = TArray True (DeepReadonly e)"
  "DeepReadonly_of (TObject fs) =
     TObject (fmmap (\<lambda>f. Fld (mapped_shape (optional f) (optional f) (DeepReadonly (shape f)))
                            (optional f) True) fs)"
  by (simp_all add: DeepReadonly_of.simps DeepReadonlyArray.simps DeepReadonlyObject.simps)

lemma DeepReadonly_prim [simp]: "DeepReadonly (TPrim p) = TPrim p"
  by (simp add: DeepReadonly.simps DeepReadonly_of_simps)




subsection \<open>\<^verbatim>\<open>DeepPartial\<close>\<close>

lemma is_function_object: "is_function t \<Longrightarrow> is_object t"
  by (induction t) auto

lemma is_array_object: "is_array t \<Longrightarrow> is_object t"
  by (induction t) auto

lemma DeepPartial_of_simps:
  "DeepPartial_of (TPrim p) = mk_union {|TPrim p, TPrim PUndefined|}"
  "DeepPartial_of (TLit s) = mk_union {|TLit s, TPrim PUndefined|}"
  "DeepPartial_of (TFun i) = TFun i"
  "DeepPartial_of (TInter a b) =
     (if is_object (TInter a b) then TInter a b
      else mk_union {|TInter a b, TPrim PUndefined|})"
  "DeepPartial_of (TArray ro e) =
     (if ro then TArray True (add_undefined (DeepPartial e)) else TArray False (DeepPartial e))"
  "DeepPartial_of (TObject fs) =
     TObject (fmmap (\<lambda>f. Fld (add_undefined (DeepPartial (shape f))) True (readonly f)) fs)"
  using is_function_object [of "TInter a b"] is_array_object [of "TInter a b"]
  by (auto simp add: DeepPartial_of.simps DeepPartialArray.simps DeepPartialObject.simps
      mapped_shape_def)

lemma DeepPartial_undefined [simp]: "DeepPartial (TPrim PUndefined) = TPrim PUndefined"
  by (simp add: DeepPartial.simps DeepPartial_of_simps mk_union_def)



subsection \<open>Filters on the constituents\<close>



subsection \<open>\<^verbatim>\<open>DeepRequired\<close>\<close>







subsection \<open>\<^verbatim>\<open>DeepNonNullable\<close>\<close>







subsection \<open>Applying a transform twice\<close>



section \<open>The deep transforms on every field\<close>













end
